theory Spec2Isabelle
  imports Complex_Main
begin

section \<open>Python values used by the program\<close>

text \<open>
  The program is one Python file, \<^verbatim>\<open>main.py\<close>. Exceptions are values of
  \<open>py_exn\<close>; a call that may raise returns \<open>py_exn + 'a\<close> with \<open>Inl\<close> for the
  exception. Numbers that the source keeps as floats are reals here: the arithmetic is exact,
  and only the truncation \<^verbatim>\<open>int(...)\<close> is modelled, by \<open>py_int\<close>.
\<close>

datatype py_exn =
    ValueError
  | FileNotFoundError
  | PdfReadError
  | OSError
  | COMError
  | SubprocessError
  | IndexError

text \<open>\<^verbatim>\<open>int(x)\<close> on a float truncates towards zero.\<close>

definition py_int :: "real \<Rightarrow> int" where
  "py_int x = (if 0 \<le> x then \<lfloor>x\<rfloor> else \<lceil>x\<rceil>)"

text \<open>
  \<^verbatim>\<open>range(start, stop, step)\<close>, as a list: a zero step raises \<^verbatim>\<open>ValueError\<close>;
  the length is the one CPython computes, for a positive and for a negative step.
\<close>

definition range_len :: "int \<Rightarrow> int \<Rightarrow> int \<Rightarrow> nat" where
  "range_len start stop step =
     (if 0 < step then (if start < stop then nat ((stop - start - 1) div step + 1) else 0)
      else if step < 0 then (if stop < start then nat ((start - stop - 1) div (- step) + 1) else 0)
      else 0)"

definition py_range :: "int \<Rightarrow> int \<Rightarrow> int \<Rightarrow> py_exn + int list" where
  "py_range start stop step =
     (if step = 0 then Inl ValueError
      else Inr (map (\<lambda>k. start + int k * step) [0 ..< range_len start stop step]))"

text \<open>\<^verbatim>\<open>s.endswith(suf)\<close> and \<^verbatim>\<open>s.lower()\<close> (on ASCII letters).\<close>

definition endswith :: "string \<Rightarrow> string \<Rightarrow> bool" where
  "endswith s suf = (length suf \<le> length s \<and> drop (length s - length suf) s = suf)"

definition lower_char :: "char \<Rightarrow> char" where
  "lower_char c =
     (case map_of (zip ''ABCDEFGHIJKLMNOPQRSTUVWXYZ'' ''abcdefghijklmnopqrstuvwxyz'') c of
        None \<Rightarrow> c
      | Some d \<Rightarrow> d)"

definition lower :: "string \<Rightarrow> string" where
  "lower s = map lower_char s"



section \<open>Paths, files and the log\<close>

text \<open>
  A \<^verbatim>\<open>pathlib.Path\<close> is kept in the parsed form the program reads it in: the
  directory (\<^verbatim>\<open>.parent\<close>), the \<^verbatim>\<open>.stem\<close> and the \<^verbatim>\<open>.suffix\<close>;
  \<^verbatim>\<open>.name\<close> is stem followed by suffix, and \<^verbatim>\<open>dir / name\<close> builds a path.
\<close>

datatype path = Path (parent: string) (stem: string) (suffix: string)

definition name :: "path \<Rightarrow> string" where
  "name p = stem p @ suffix p"

text \<open>
  The drawing calls made on a ReportLab canvas, in the order they are made; a PDF page is its
  media box (four numbers, \<^verbatim>\<open>mediabox[0:4]\<close>) and its content.
\<close>

datatype canvas_op =
    SetFillColor string real
  | SetFont string real
  | Translate real real
  | Rotate real
  | DrawString int int string

record page =
  mediabox :: "real \<times> real \<times> real \<times> real"
  contents :: "canvas_op list"

text \<open>\<^verbatim>\<open>page.mediabox[2:]\<close>: the last two numbers of the media box.\<close>

definition upper_right :: "page \<Rightarrow> real \<times> real" where
  "upper_right p = (case mediabox p of (llx, lly, urx, ury) \<Rightarrow> (urx, ury))"

datatype fcontent = PdfFile "page list" | RawFile

text \<open>The messages the program logs, one constructor for each message text of the source.\<close>

datatype msg =
    UnsupportedPlatform string string
  | MissingPdfLibs
  | FontNotRegistered
  | EmptyPdf string
  | WatermarkOk string
  | WatermarkError py_exn
  | ComtypesWindowsOnly
  | ComtypesNotInstalled
  | WordConverting string
  | WordError py_exn
  | PowerPointConverting string
  | PowerPointError py_exn
  | ConvertOk string
  | LibreOfficeConverting string
  | LibreOfficeFailed
  | LibreOfficeError py_exn
  | JobHeader nat nat string
  | AutoFallback
  | ConvertFailed string
  | PdfSkipConversion
  | WatermarkFailed string
  | DoneNoWatermark
  | AllDone nat nat
  | SeriousError py_exn
  | SaveSettingsFailed
  | LoadSettingsFailed

text \<open>
  What the program changes outside itself: the files on disk, the messages given to the
  logger, and the calls made to the conversion engines (the automation calls of lines 387-403
  and 408-423, the subprocess of line 360), in the order they are made. \<open>Invoke\<close> marks the
  entry into one of the two conversion methods.
\<close>

datatype backend = Comtypes | LibreOffice

datatype event =
    Invoke backend path
  | ComCreate string
  | ComOpen path
  | ComSaveAs path int
  | ComClose
  | ComQuit
  | RunSoffice path string

record world =
  files :: "path \<Rightarrow> fcontent option"
  logged :: "msg list"
  trace :: "event list"

definition logm :: "msg \<Rightarrow> world \<Rightarrow> world" where
  "logm m w = w\<lparr>logged := logged w @ [m]\<rparr>"

definition ev :: "event \<Rightarrow> world \<Rightarrow> world" where
  "ev x w = w\<lparr>trace := trace w @ [x]\<rparr>"

definition put :: "path \<Rightarrow> fcontent \<Rightarrow> world \<Rightarrow> world" where
  "put p c w = w\<lparr>files := (files w)(p \<mapsto> c)\<rparr>"

definition exists :: "world \<Rightarrow> path \<Rightarrow> bool" where
  "exists w p = (files w p \<noteq> None)"

definition unlink :: "path \<Rightarrow> world \<Rightarrow> world" where
  "unlink p w = w\<lparr>files := (files w)(p := None)\<rparr>"

text \<open>
  What the program cannot decide by itself is a parameter: the platform, which libraries
  import, the font metrics, the name the temporary file gets, which paths can be written, and
  how the office applications and the LibreOffice process behave on an input file.
\<close>

record com_behaviour =
  create_raises :: bool
  open_raises :: bool
  saveas_raises :: bool
  saveas_writes :: bool
  close_raises :: bool
  quit_raises :: bool

datatype proc_outcome = ProcRaises py_exn | ProcExit int bool

record env =
  system :: string
  comtypes_available :: bool
  pdf_libs_available :: bool
  font_registered :: bool
  stringWidth :: "string \<Rightarrow> real \<Rightarrow> real"
  temp_name :: path
  can_write :: "path \<Rightarrow> bool"
  com :: "path \<Rightarrow> com_behaviour"
  soffice :: "path \<Rightarrow> string \<Rightarrow> proc_outcome"
  converted :: "path \<Rightarrow> page list"
  copy_ok :: "path \<Rightarrow> path \<Rightarrow> bool"

text \<open>\<^verbatim>\<open>PyPDF2.PdfReader\<close> on a path: the file must exist and be a PDF.\<close>

definition read_pdf :: "world \<Rightarrow> path \<Rightarrow> py_exn + page list" where
  "read_pdf w p =
     (case files w p of
        None \<Rightarrow> Inl FileNotFoundError
      | Some RawFile \<Rightarrow> Inl PdfReadError
      | Some (PdfFile ps) \<Rightarrow> Inr ps)"

section \<open>DependencyManager.get_libreoffice_download_url\<close>

text \<open>
  Lines 133-151. The result is the returned value (\<open>None\<close> for Python's \<^verbatim>\<open>None\<close>) and
  the messages logged by the call.
\<close>

definition get_libreoffice_download_url :: "string \<Rightarrow> string \<Rightarrow> string option \<times> msg list" where
  "get_libreoffice_download_url sys mach =
     (if sys = ''Windows'' \<and> endswith mach ''64''
        then (Some ''https://pan.yeslu.cn/f/wEH3/LibreOffice_25.2.5_Win_x86-64.msi'', [])
      else if sys = ''Darwin'' \<and> mach = ''arm64''
        then (Some ''https://pan.yeslu.cn/f/EnS3/LibreOffice_25.2.5_MacOS_aarch64.dmg'', [])
      else if sys = ''Darwin'' \<and> mach = ''x86_64''
        then (Some ''https://pan.yeslu.cn/f/qMh4/LibreOffice_25.2.5_MacOS_x86-64.dmg'', [])
      else (None, [UnsupportedPlatform sys mach]))"

text \<open>
  The pairs the resolver has a URL for, in the words of the specification: Windows with a
  machine string ending in 64, macOS on arm64, macOS on x86_64.
\<close>

definition mapped_pair :: "string \<Rightarrow> string \<Rightarrow> bool" where
  "mapped_pair sys mach =
     ((sys = ''Windows'' \<and> endswith mach ''64'')
      \<or> (sys = ''Darwin'' \<and> mach = ''arm64'')
      \<or> (sys = ''Darwin'' \<and> mach = ''x86_64''))"

section \<open>WatermarkManager.add_watermark\<close>

text \<open>
  The two ranges of lines 311-312: the anchor abscissas run from \<open>- int (page_width * 2)\<close>
  towards \<open>int (page_width * 2)\<close> in steps of \<open>int (text_width * 1.5)\<close>, the ordinates from
  \<open>- int (page_height * 2)\<close> towards \<open>int (page_height * 2)\<close> in steps of
  \<open>int (font_size * 5)\<close>.
\<close>

definition tile_columns :: "real \<Rightarrow> real \<Rightarrow> py_exn + int list" where
  "tile_columns page_width text_width =
     py_range (- py_int (page_width * 2)) (py_int (page_width * 2)) (py_int (text_width * 1.5))"

definition tile_rows :: "real \<Rightarrow> real \<Rightarrow> py_exn + int list" where
  "tile_rows page_height font_size =
     py_range (- py_int (page_height * 2)) (py_int (page_height * 2)) (py_int (font_size * 5))"

text \<open>
  The nested loops of lines 311-313. The inner \<^verbatim>\<open>range\<close> is evaluated once for every
  \<open>x\<close> of the outer one, so it is not evaluated at all when the outer one is empty.
\<close>

fun draw_columns :: "int list \<Rightarrow> real \<Rightarrow> real \<Rightarrow> string \<Rightarrow> py_exn + canvas_op list" where
  "draw_columns [] page_height font_size text = Inr []"
| "draw_columns (x # xs) page_height font_size text =
     (case tile_rows page_height font_size of
        Inl e \<Rightarrow> Inl e
      | Inr ys \<Rightarrow>
          (case draw_columns xs page_height font_size text of
             Inl e \<Rightarrow> Inl e
           | Inr ops \<Rightarrow> Inr (map (\<lambda>y. DrawString x y text) ys @ ops)))"

definition draw_tiles :: "real \<Rightarrow> real \<Rightarrow> real \<Rightarrow> real \<Rightarrow> string \<Rightarrow> py_exn + canvas_op list" where
  "draw_tiles page_width page_height text_width font_size text =
     (case tile_columns page_width text_width of
        Inl e \<Rightarrow> Inl e
      | Inr xs \<Rightarrow> draw_columns xs page_height font_size text)"

definition font_name :: string where
  "font_name = ''Source Han Serif CN''"

text \<open>
  Lines 302-314: the canvas of the overlay, of page size \<open>(page_width, page_height)\<close>, with
  the calls made on it; \<open>overlay_page\<close> is the page \<^verbatim>\<open>c.save()\<close> writes.
\<close>

definition overlay_ops ::
  "env \<Rightarrow> string \<Rightarrow> real \<Rightarrow> real \<Rightarrow> real \<Rightarrow> real \<Rightarrow> real \<Rightarrow> py_exn + canvas_op list" where
  "overlay_ops e text opacity font_size rotation page_width page_height =
     (case draw_tiles page_width page_height (stringWidth e text font_size) font_size text of
        Inl x \<Rightarrow> Inl x
      | Inr ds \<Rightarrow>
          Inr ([SetFillColor ''gray'' opacity, SetFont font_name font_size,
                Translate (page_width / 2) (page_height / 2), Rotate rotation] @ ds))"

definition overlay_page :: "real \<Rightarrow> real \<Rightarrow> canvas_op list \<Rightarrow> page" where
  "overlay_page page_width page_height ops =
     \<lparr>mediabox = (0, 0, page_width, page_height), contents = ops\<rparr>"

text \<open>\<^verbatim>\<open>page.merge_page(watermark_page)\<close>: the overlay's content is drawn over the page's.\<close>

definition merge_page :: "page \<Rightarrow> page \<Rightarrow> page" where
  "merge_page p wm = p\<lparr>contents := contents p @ contents wm\<rparr>"

text \<open>
  The body of the \<^verbatim>\<open>try\<close> of lines 290-326. The result is the value returned or the
  exception raised, the value of \<^verbatim>\<open>watermark_canvas_path\<close> when the body is left, and
  the world. \<^verbatim>\<open>NamedTemporaryFile(delete=False)\<close> creates an empty file under the name
  \<open>temp_name e\<close>; the page size is read from \<^verbatim>\<open>pdf_reader.pages[0].mediabox[2:]\<close>.
\<close>

definition watermark_try ::
  "env \<Rightarrow> path \<Rightarrow> string \<Rightarrow> path \<Rightarrow> real \<Rightarrow> real \<Rightarrow> real \<Rightarrow> world
     \<Rightarrow> (py_exn + bool) \<times> path option \<times> world" where
  "watermark_try e pdf_path text output_path opacity font_size rotation w =
     (case read_pdf w pdf_path of
        Inl x \<Rightarrow> (Inl x, None, w)
      | Inr [] \<Rightarrow> (Inr False, None, logm (EmptyPdf (name pdf_path)) w)
      | Inr (first_page # rest) \<Rightarrow>
          (let watermark_canvas_path = temp_name e;
               w1 = put watermark_canvas_path RawFile w;
               page_width = fst (upper_right first_page);
               page_height = snd (upper_right first_page)
           in case overlay_ops e text opacity font_size rotation page_width page_height of
                Inl x \<Rightarrow> (Inl x, Some watermark_canvas_path, w1)
              | Inr ops \<Rightarrow>
                  (let w2 = put watermark_canvas_path
                              (PdfFile [overlay_page page_width page_height ops]) w1
                   in case read_pdf w2 watermark_canvas_path of
                        Inl x \<Rightarrow> (Inl x, Some watermark_canvas_path, w2)
                      | Inr [] \<Rightarrow> (Inl IndexError, Some watermark_canvas_path, w2)
                      | Inr (watermark_page # _) \<Rightarrow>
                          if can_write e output_path
                          then (Inr True, Some watermark_canvas_path,
                                logm (WatermarkOk (name output_path))
                                  (put output_path
                                     (PdfFile (map (\<lambda>p. merge_page p watermark_page)
                                                 (first_page # rest))) w2))
                          else (Inl OSError, Some watermark_canvas_path, w2))))"

text \<open>
  Lines 276-332: the import and font checks, the \<^verbatim>\<open>try\<close>, the handler that turns any
  exception into \<^verbatim>\<open>False\<close>, and the \<^verbatim>\<open>finally\<close> that removes the temporary file.
\<close>

definition add_watermark ::
  "env \<Rightarrow> path \<Rightarrow> string \<Rightarrow> path \<Rightarrow> real \<Rightarrow> real \<Rightarrow> real \<Rightarrow> world \<Rightarrow> bool \<times> world" where
  "add_watermark e pdf_path text output_path opacity font_size rotation w =
     (if \<not> pdf_libs_available e then (False, logm MissingPdfLibs w)
      else if \<not> font_registered e then (False, logm FontNotRegistered w)
      else
        (case watermark_try e pdf_path text output_path opacity font_size rotation w of
           (r, watermark_canvas_path, w1) \<Rightarrow>
             (let (res, w2) =
                    (case r of
                       Inl x \<Rightarrow> (False, logm (WatermarkError x) w1)
                     | Inr b \<Rightarrow> (b, w1))
              in case watermark_canvas_path of
                   None \<Rightarrow> (res, w2)
                 | Some p \<Rightarrow> (res, if exists w2 p then unlink p w2 else w2))))"

section \<open>OfficeToPDFConverter\<close>

text \<open>
  \<^verbatim>\<open>convert_with_libreoffice\<close>, lines 350-370. The command line of lines 353-357 is
  handed to the process as it is; what the process does with the input file is
  \<open>soffice e input_path output_dir\<close>: it raises, or it exits with a return code and has
  written \<^verbatim>\<open><output_dir>/<stem>.pdf\<close> or not. The method itself never raises: the
  handler of line 368 returns \<^verbatim>\<open>False\<close>.
\<close>

definition convert_with_libreoffice :: "env \<Rightarrow> path \<Rightarrow> string \<Rightarrow> world \<Rightarrow> bool \<times> world" where
  "convert_with_libreoffice e input_path output_dir w =
     (let w1 = logm (LibreOfficeConverting (name input_path)) (ev (Invoke LibreOffice input_path) w);
          w2 = ev (RunSoffice input_path output_dir) w1;
          output_file = Path output_dir (stem input_path) ''.pdf''
      in case soffice e input_path output_dir of
           ProcRaises x \<Rightarrow> (False, logm (LibreOfficeError x) w2)
         | ProcExit returncode written \<Rightarrow>
             (let w3 = (if written then put output_file (PdfFile (converted e input_path)) w2
                        else w2)
              in if returncode = 0 \<and> exists w3 output_file
                 then (True, logm (ConvertOk (name output_file)) w3)
                 else (False, logm LibreOfficeFailed w3)))"

text \<open>
  \<^verbatim>\<open>convert_with_comtypes\<close>, lines 372-423. The two branches (Word for
  \<^verbatim>\<open>.doc\<close>/\<^verbatim>\<open>.docx\<close>, PowerPoint otherwise) differ in the application started, the
  format code given to \<^verbatim>\<open>SaveAs\<close> and the messages.
\<close>

datatype office_app = Word | PowerPoint

fun prog_id :: "office_app \<Rightarrow> string" where
  "prog_id Word = ''Word.Application''"
| "prog_id PowerPoint = ''Powerpoint.Application''"

fun pdf_format :: "office_app \<Rightarrow> int" where
  "pdf_format Word = 17"
| "pdf_format PowerPoint = 32"

fun converting_msg :: "office_app \<Rightarrow> string \<Rightarrow> msg" where
  "converting_msg Word n = WordConverting n"
| "converting_msg PowerPoint n = PowerPointConverting n"

fun error_msg :: "office_app \<Rightarrow> py_exn \<Rightarrow> msg" where
  "error_msg Word x = WordError x"
| "error_msg PowerPoint x = PowerPointError x"

text \<open>
  The body of the \<^verbatim>\<open>try\<close> (lines 386-395 and 407-415): the result, whether the
  application variable (\<^verbatim>\<open>word\<close>, \<^verbatim>\<open>powerpoint\<close>) and the document variable
  (\<^verbatim>\<open>doc\<close>, \<^verbatim>\<open>presentation\<close>) have been assigned, and the world. Each automation call
  may raise, as \<open>com e input_path\<close> says; \<^verbatim>\<open>SaveAs\<close> that returns has written the
  output file or not. Setting \<^verbatim>\<open>Visible\<close> (lines 388, 410) is taken not to raise.
\<close>

definition automate ::
  "env \<Rightarrow> office_app \<Rightarrow> path \<Rightarrow> path \<Rightarrow> world \<Rightarrow> (py_exn + bool) \<times> bool \<times> bool \<times> world" where
  "automate e app input_path output_path w =
     (let b = com e input_path;
          w1 = ev (ComCreate (prog_id app)) (logm (converting_msg app (name input_path)) w)
      in if create_raises b then (Inl COMError, False, False, w1)
         else
           (let w2 = ev (ComOpen input_path) w1
            in if open_raises b then (Inl COMError, True, False, w2)
               else
                 (let w3 = ev (ComSaveAs output_path (pdf_format app)) w2
                  in if saveas_raises b then (Inl COMError, True, True, w3)
                     else
                       (let w4 = (if saveas_writes b
                                  then put output_path (PdfFile (converted e input_path)) w3
                                  else w3)
                        in (Inr True, True, True, logm (ConvertOk (name output_path)) w4)))))"

text \<open>
  The \<^verbatim>\<open>finally\<close> of lines 399-403 and 419-423: \<^verbatim>\<open>Close\<close> when the document is set,
  then \<^verbatim>\<open>Quit\<close> when the application is set. An exception raised here leaves the block
  at once and replaces the pending return value \<open>r\<close>.
\<close>

definition release ::
  "env \<Rightarrow> path \<Rightarrow> bool \<Rightarrow> bool \<Rightarrow> py_exn + bool \<Rightarrow> world \<Rightarrow> (py_exn + bool) \<times> world" where
  "release e input_path app_set doc_set r w =
     (let b = com e input_path;
          w1 = (if doc_set then ev ComClose w else w)
      in if doc_set \<and> close_raises b then (Inl COMError, w1)
         else
           (let w2 = (if app_set then ev ComQuit w1 else w1)
            in if app_set \<and> quit_raises b then (Inl COMError, w2) else (r, w2)))"

definition convert_with_comtypes ::
  "env \<Rightarrow> path \<Rightarrow> path \<Rightarrow> world \<Rightarrow> (py_exn + bool) \<times> world" where
  "convert_with_comtypes e input_path output_path w =
     (let w0 = ev (Invoke Comtypes input_path) w
      in if system e \<noteq> ''Windows'' then (Inr False, logm ComtypesWindowsOnly w0)
         else if \<not> comtypes_available e then (Inr False, logm ComtypesNotInstalled w0)
         else
           (let app = (if lower (suffix input_path) \<in> set [''.doc'', ''.docx'']
                       then Word else PowerPoint)
            in case automate e app input_path output_path w0 of
                 (r, app_set, doc_set, w1) \<Rightarrow>
                   (case r of
                      Inl x \<Rightarrow>
                        release e input_path app_set doc_set (Inr False) (logm (error_msg app x) w1)
                    | Inr v \<Rightarrow> release e input_path app_set doc_set (Inr v) w1)))"

section \<open>OfficeToPDFGUI: the batch run and the settings\<close>

record gui =
  input_files :: "path list"
  output_directory :: string
  conversion_method :: string
  add_watermark_flag :: bool
  watermark_text :: string
  watermark_opacity :: real
  watermark_size :: int
  watermark_rotation :: int
  watermark_history :: "string list"















text \<open>The messages that report a finished file.\<close>

fun is_success :: "msg \<Rightarrow> bool" where
  "is_success (WatermarkOk n) = True"
| "is_success DoneNoWatermark = True"
| "is_success m = False"

text \<open>The messages that open the work on a file (line 839).\<close>

fun is_header :: "msg \<Rightarrow> bool" where
  "is_header (JobHeader i n f) = True"
| "is_header m = False"

text \<open>Messages among which none opens the work on a file and none reports a finished file.\<close>

definition quiet :: "msg list \<Rightarrow> bool" where
  "quiet ms = (filter is_header ms = [] \<and> filter is_success ms = [])"


section \<open>Example data\<close>

text \<open>
  A two-page PDF whose second page is twice as wide as the first, a one-page PDF whose media
  box lies left of and below the origin, another one-page PDF, an office file, a Windows
  machine on which every library imports and every engine works, and the interface as it is
  set in the example of the specification. The width of a text is taken as half the font
  size for each character.
\<close>

definition example_page1 :: page where
  "example_page1 = \<lparr>mediabox = (0, 0, 100, 100), contents = [DrawString 10 10 ''Report'']\<rparr>"

definition example_page2 :: page where
  "example_page2 = \<lparr>mediabox = (0, 0, 200, 100), contents = [DrawString 5 5 ''Annex'']\<rparr>"

definition example_page3 :: page where
  "example_page3 = \<lparr>mediabox = (- 612, - 792, 0, 0), contents = [DrawString (- 300) (- 400) ''Plan'']\<rparr>"

definition example_pdf :: path where
  "example_pdf = Path ''/docs'' ''report'' ''.pdf''"

definition example_docx :: path where
  "example_docx = Path ''/docs'' ''letter'' ''.docx''"

definition example_plan :: path where
  "example_plan = Path ''/docs'' ''plan'' ''.pdf''"

definition example_notes :: path where
  "example_notes = Path ''/docs'' ''notes'' ''.pdf''"

definition example_out :: path where
  "example_out = Path ''/out'' ''report_watermarked'' ''.pdf''"

definition example_world :: world where
  "example_world =
     \<lparr>files = [example_pdf \<mapsto> PdfFile [example_page1, example_page2],
               example_docx \<mapsto> RawFile,
               example_plan \<mapsto> PdfFile [example_page3],
               example_notes \<mapsto> PdfFile [example_page1]],
      logged = [], trace = []\<rparr>"

definition example_com :: com_behaviour where
  "example_com =
     \<lparr>create_raises = False, open_raises = False, saveas_raises = False, saveas_writes = True,
      close_raises = False, quit_raises = False\<rparr>"

definition example_env :: env where
  "example_env =
     \<lparr>system = ''Windows'', comtypes_available = True, pdf_libs_available = True,
      font_registered = True, stringWidth = (\<lambda>t s. real (length t) * s / 2),
      temp_name = Path ''/tmp'' ''tmpk3v9'' ''.pdf'', can_write = (\<lambda>p. True),
      com = (\<lambda>p. example_com), soffice = (\<lambda>p d. ProcExit 0 True),
      converted = (\<lambda>p. [example_page1]), copy_ok = (\<lambda>p q. True)\<rparr>"

definition example_gui :: gui where
  "example_gui =
     \<lparr>input_files = [example_pdf, example_docx], output_directory = ''/out'',
      conversion_method = ''auto'', add_watermark_flag = True,
      watermark_text = ''CONFIDENTIAL'', watermark_opacity = 0.2, watermark_size = 25,
      watermark_rotation = 30, watermark_history = []\<rparr>"

text \<open>
  A batch of three files on a machine where Word cannot open the office file and LibreOffice
  exits with code 1 without writing a PDF; and a batch of three PDF files, without watermark,
  on a machine where the second file cannot be copied.
\<close>

definition example_failing_env :: env where
  "example_failing_env =
     example_env\<lparr>com := \<lambda>p. example_com\<lparr>open_raises := True\<rparr>,
                  soffice := \<lambda>p d. ProcExit 1 False\<rparr>"

definition example_batch_gui :: gui where
  "example_batch_gui = example_gui\<lparr>input_files := [example_pdf, example_docx, example_notes]\<rparr>"

definition example_copy_env :: env where
  "example_copy_env = example_env\<lparr>copy_ok := \<lambda>p q. p \<noteq> example_plan\<rparr>"

definition example_copy_gui :: gui where
  "example_copy_gui =
     example_gui\<lparr>input_files := [example_pdf, example_plan, example_notes],
                  add_watermark_flag := False\<rparr>"

section \<open>Properties\<close>

subsection \<open>Download URL resolution\<close>

text \<open>
  C8. For every (platform, architecture) pair: a mapped pair gets a non-empty URL and no
  message is logged; every other pair gets \<open>None\<close> and exactly one message, the
  unsupported-platform one, is logged.
\<close>

theorem download_url_mapped_or_reported:
  "(mapped_pair sys mach \<longrightarrow>
      (\<exists>u. fst (get_libreoffice_download_url sys mach) = Some u \<and> u \<noteq> [])
      \<and> snd (get_libreoffice_download_url sys mach) = [])
   \<and> (\<not> mapped_pair sys mach \<longrightarrow>
      get_libreoffice_download_url sys mach = (None, [UnsupportedPlatform sys mach])
      \<and> length (snd (get_libreoffice_download_url sys mach)) = 1)"
  by (simp add: get_libreoffice_download_url_def mapped_pair_def)

theorem download_url_mapped_or_reported_witness:
  "mapped_pair ''Windows'' ''AMD64''
   \<and> (\<exists>u. fst (get_libreoffice_download_url ''Windows'' ''AMD64'') = Some u \<and> u \<noteq> [])
   \<and> snd (get_libreoffice_download_url ''Windows'' ''AMD64'') = []
   \<and> \<not> mapped_pair ''Linux'' ''x86_64''
   \<and> get_libreoffice_download_url ''Linux'' ''x86_64''
       = (None, [UnsupportedPlatform ''Linux'' ''x86_64''])
   \<and> length (snd (get_libreoffice_download_url ''Linux'' ''x86_64'')) = 1"
proof -
  have w: "mapped_pair ''Windows'' ''AMD64''"
    by (simp add: mapped_pair_def endswith_def)
  have l: "\<not> mapped_pair ''Linux'' ''x86_64''"
    by (simp add: mapped_pair_def)
  from w l download_url_mapped_or_reported [of "''Windows''" "''AMD64''"]
    download_url_mapped_or_reported [of "''Linux''" "''x86_64''"]
  show ?thesis by blast
qed

subsection \<open>Auxiliary facts\<close>

lemma logged_simps [simp]:
  "logged (logm m w) = logged w @ [m]" "logged (ev x w) = logged w"
  "logged (put p c w) = logged w" "logged (unlink p w) = logged w"
  by (simp_all add: logm_def ev_def put_def unlink_def)

lemma files_simps [simp]:
  "files (logm m w) = files w" "files (ev x w) = files w"
  "files (put p c w) = (files w)(p \<mapsto> c)" "files (unlink p w) = (files w)(p := None)"
  by (simp_all add: logm_def ev_def put_def unlink_def)

lemma trace_simps [simp]:
  "trace (logm m w) = trace w" "trace (ev x w) = trace w @ [x]"
  "trace (put p c w) = trace w" "trace (unlink p w) = trace w"
  by (simp_all add: logm_def ev_def put_def unlink_def)

lemma exists_simps [simp]:
  "exists (logm m w) p = exists w p" "exists (ev x w) p = exists w p"
  "exists (put q c w) p = (p = q \<or> exists w p)"
  "exists (unlink q w) p = (p \<noteq> q \<and> exists w p)"
  by (auto simp: exists_def)

lemma watermark_try_True:
  assumes "watermark_try e pdf_path text output_path opacity font_size rotation w = (Inr True, tp, w1)"
  shows "\<exists>first_page rest ops.
           read_pdf w pdf_path = Inr (first_page # rest)
         \<and> overlay_ops e text opacity font_size rotation
              (fst (upper_right first_page)) (snd (upper_right first_page)) = Inr ops
         \<and> can_write e output_path
         \<and> tp = Some (temp_name e)
         \<and> w1 = logm (WatermarkOk (name output_path))
                  (put output_path
                     (PdfFile (map (\<lambda>p. merge_page p
                         (overlay_page (fst (upper_right first_page)) (snd (upper_right first_page)) ops))
                       (first_page # rest)))
                     (put (temp_name e)
                        (PdfFile [overlay_page (fst (upper_right first_page))
                                    (snd (upper_right first_page)) ops])
                        (put (temp_name e) RawFile w)))"
  using assms
  by (auto simp: watermark_try_def Let_def read_pdf_def
           split: sum.splits list.splits if_splits option.splits fcontent.splits)

lemma add_watermark_True:
  assumes "add_watermark e pdf_path text output_path opacity font_size rotation w = (True, w')"
  shows "\<exists>first_page rest ops.
           read_pdf w pdf_path = Inr (first_page # rest)
         \<and> overlay_ops e text opacity font_size rotation
              (fst (upper_right first_page)) (snd (upper_right first_page)) = Inr ops
         \<and> can_write e output_path
         \<and> w' = unlink (temp_name e) (logm (WatermarkOk (name output_path))
                  (put output_path
                     (PdfFile (map (\<lambda>p. merge_page p
                         (overlay_page (fst (upper_right first_page)) (snd (upper_right first_page)) ops))
                       (first_page # rest)))
                     (put (temp_name e)
                        (PdfFile [overlay_page (fst (upper_right first_page))
                                    (snd (upper_right first_page)) ops])
                        (put (temp_name e) RawFile w))))"
proof -
  obtain r tp w1 where t: "watermark_try e pdf_path text output_path opacity font_size rotation w = (r, tp, w1)"
    by (metis prod_cases3)
  have "r = Inr True" using assms t
    by (auto simp: add_watermark_def Let_def split: if_splits sum.splits option.splits)
  with t have t': "watermark_try e pdf_path text output_path opacity font_size rotation w = (Inr True, tp, w1)" by simp
  from watermark_try_True [OF t'] obtain first_page rest ops where
    h: "read_pdf w pdf_path = Inr (first_page # rest)"
       "overlay_ops e text opacity font_size rotation
              (fst (upper_right first_page)) (snd (upper_right first_page)) = Inr ops"
       "can_write e output_path" "tp = Some (temp_name e)"
       "w1 = logm (WatermarkOk (name output_path))
                  (put output_path
                     (PdfFile (map (\<lambda>p. merge_page p
                         (overlay_page (fst (upper_right first_page)) (snd (upper_right first_page)) ops))
                       (first_page # rest)))
                     (put (temp_name e)
                        (PdfFile [overlay_page (fst (upper_right first_page))
                                    (snd (upper_right first_page)) ops])
                        (put (temp_name e) RawFile w)))"
    by blast
  have "w' = unlink (temp_name e) w1"
    using assms t' h(4,5)
    by (auto simp: add_watermark_def Let_def split: if_splits)
  with h show ?thesis by blast
qed

lemmas example_defs =
  example_env_def example_world_def example_pdf_def example_docx_def example_plan_def
  example_notes_def example_failing_env_def example_batch_gui_def example_copy_env_def
  example_copy_gui_def
  example_out_def example_page1_def example_page2_def example_page3_def example_com_def
  example_gui_def

lemmas watermark_defs =
  add_watermark_def watermark_try_def read_pdf_def overlay_ops_def draw_tiles_def
  tile_columns_def tile_rows_def py_range_def range_len_def py_int_def upper_right_def
  overlay_page_def merge_page_def font_name_def name_def Let_def upt_conv_Cons












subsection \<open>Tiling\<close>




subsection \<open>Pages of the watermarked document\<close>


lemma example_watermark_succeeds:
  "fst (add_watermark example_env example_pdf ''CONFIDENTIAL'' example_out 0.2 25 30
         example_world) = True"
  by (simp add: watermark_defs example_defs)



subsection \<open>The overlay and the pages it is merged onto\<close>

text \<open>
  C1, as amended. When the watermark operation succeeds, one overlay is built, from the first
  page alone: its page size is the upper right corner of the first page's media box (the
  width and height of that page when its media box starts at the origin), and this same
  overlay is merged onto every page of the document, whatever the size of that page.
\<close>

theorem overlay_sized_to_first_page:
  assumes "add_watermark e pdf_path text output_path opacity font_size rotation w = (True, w')"
    and "temp_name e \<noteq> output_path"
  shows "\<exists>first_page rest ops out.
           files w pdf_path = Some (PdfFile (first_page # rest))
         \<and> overlay_ops e text opacity font_size rotation
              (fst (upper_right first_page)) (snd (upper_right first_page)) = Inr ops
         \<and> files w' output_path = Some (PdfFile out)
         \<and> length out = length (first_page # rest)
         \<and> (\<forall>i < length (first_page # rest).
               out ! i = merge_page ((first_page # rest) ! i)
                 (overlay_page (fst (upper_right first_page)) (snd (upper_right first_page)) ops))
         \<and> mediabox (overlay_page (fst (upper_right first_page)) (snd (upper_right first_page)) ops)
             = (0, 0, upper_right first_page)"
proof -
  from add_watermark_True [OF assms(1)] obtain first_page rest ops where
    r: "read_pdf w pdf_path = Inr (first_page # rest)"
    and o: "overlay_ops e text opacity font_size rotation
              (fst (upper_right first_page)) (snd (upper_right first_page)) = Inr ops"
    and w': "w' = unlink (temp_name e) (logm (WatermarkOk (name output_path))
                  (put output_path
                     (PdfFile (map (\<lambda>p. merge_page p
                         (overlay_page (fst (upper_right first_page)) (snd (upper_right first_page)) ops))
                       (first_page # rest)))
                     (put (temp_name e)
                        (PdfFile [overlay_page (fst (upper_right first_page))
                                    (snd (upper_right first_page)) ops])
                        (put (temp_name e) RawFile w))))"
    by blast
  let ?pages = "first_page # rest"
  let ?wm = "overlay_page (fst (upper_right first_page)) (snd (upper_right first_page)) ops"
  let ?out = "map (\<lambda>p. merge_page p ?wm) ?pages"
  have 1: "files w pdf_path = Some (PdfFile ?pages)"
    using r by (auto simp: read_pdf_def split: option.splits fcontent.splits)
  have 2: "files w' output_path = Some (PdfFile ?out)"
    using assms(2) by (simp add: w')
  have 3: "\<forall>i < length ?pages. ?out ! i = merge_page (?pages ! i) ?wm"
    by (simp del: list.map)
  have 4: "mediabox ?wm = (0, 0, upper_right first_page)"
    by (simp add: overlay_page_def)
  from 1 o 2 3 4 show ?thesis
    by (intro exI [of _ first_page] exI [of _ rest] exI [of _ ops] exI [of _ ?out])
       (simp del: list.map)
qed

theorem overlay_sized_to_first_page_witness:
  "temp_name example_env \<noteq> example_out
   \<and> fst (add_watermark example_env example_pdf ''CONFIDENTIAL'' example_out 0.2 25 30
            example_world) = True
   \<and> upper_right example_page1 = (100, 100)
   \<and> (\<exists>ops out.
          overlay_ops example_env ''CONFIDENTIAL'' 0.2 25 30 100 100 = Inr ops
        \<and> files (snd (add_watermark example_env example_pdf ''CONFIDENTIAL'' example_out 0.2 25 30
                        example_world)) example_out = Some (PdfFile out)
        \<and> out ! 0 = merge_page example_page1 (overlay_page 100 100 ops)
        \<and> out ! 1 = merge_page example_page2 (overlay_page 100 100 ops))"
proof -
  let ?r = "add_watermark example_env example_pdf ''CONFIDENTIAL'' example_out 0.2 25 30
              example_world"
  have t: "temp_name example_env \<noteq> example_out" by (simp add: example_defs)
  have s: "fst ?r = True" by (rule example_watermark_succeeds)
  then have eq: "?r = (True, snd ?r)" by (metis prod.collapse)
  have f: "files example_world example_pdf = Some (PdfFile [example_page1, example_page2])"
    by (simp add: example_defs)
  have u: "upper_right example_page1 = (100, 100)" by (simp add: upper_right_def example_defs)
  from overlay_sized_to_first_page [OF eq t] obtain first_page rest ops out where
    h: "files example_world example_pdf = Some (PdfFile (first_page # rest))"
       "overlay_ops example_env ''CONFIDENTIAL'' 0.2 25 30
              (fst (upper_right first_page)) (snd (upper_right first_page)) = Inr ops"
       "files (snd ?r) example_out = Some (PdfFile out)"
       "\<forall>i < length (first_page # rest).
               out ! i = merge_page ((first_page # rest) ! i)
                 (overlay_page (fst (upper_right first_page)) (snd (upper_right first_page)) ops)"
    by blast
  from h(1) f have p: "first_page = example_page1" "rest = [example_page2]" by simp_all
  from h(4) have "out ! 0 = merge_page example_page1 (overlay_page 100 100 ops)"
    "out ! 1 = merge_page example_page2 (overlay_page 100 100 ops)"
    by (simp_all add: p u)
  with h(2,3) t s u show ?thesis by (auto simp: p)
qed

theorem overlay_per_page_counterexample:
  "fst (add_watermark example_env example_pdf ''CONFIDENTIAL'' example_out 0.2 25 30
          example_world) = True
   \<and> upper_right example_page2 = (200, 100)
   \<and> (\<exists>out ops2.
          files (snd (add_watermark example_env example_pdf ''CONFIDENTIAL'' example_out 0.2 25 30
                        example_world)) example_out = Some (PdfFile out)
        \<and> overlay_ops example_env ''CONFIDENTIAL'' 0.2 25 30 200 100 = Inr ops2
        \<and> out ! 1 \<noteq> merge_page example_page2 (overlay_page 200 100 ops2))"
  by (simp add: watermark_defs example_defs exists_def put_def logm_def unlink_def)

subsection \<open>A stride that truncates to zero\<close>

text \<open>
  C10, as amended. With the PDF libraries and the font available and a source PDF that has
  pages: when the horizontal stride \<open>int (text_width * 1.5)\<close> is zero, or when it is positive,
  the outer range is not empty (\<open>int (page_width * 2)\<close> is at least 1) and the vertical
  stride \<open>int (font_size * 5)\<close> is zero, the operation returns \<^verbatim>\<open>False\<close>, the
  \<^verbatim>\<open>ValueError\<close> of \<^verbatim>\<open>range\<close> is the one message it logs, the temporary overlay
  file does not exist afterwards and no other file has changed. The operation is a total
  function, so it returns on every input.
\<close>

theorem zero_stride_is_reported:
  assumes "pdf_libs_available e" and "font_registered e"
    and "read_pdf w pdf_path = Inr (first_page # rest)"
    and "py_int (stringWidth e text font_size * 1.5) = 0
         \<or> (0 < py_int (stringWidth e text font_size * 1.5)
             \<and> 1 \<le> py_int (fst (upper_right first_page) * 2)
             \<and> py_int (font_size * 5) = 0)"
  shows "\<exists>w'. add_watermark e pdf_path text output_path opacity font_size rotation w = (False, w')
           \<and> logged w' = logged w @ [WatermarkError ValueError]
           \<and> \<not> exists w' (temp_name e)
           \<and> (\<forall>p. p \<noteq> temp_name e \<longrightarrow> files w' p = files w p)
           \<and> trace w' = trace w"
proof -
  let ?pw = "fst (upper_right first_page)" and ?ph = "snd (upper_right first_page)"
  let ?tw = "stringWidth e text font_size"
  have d: "draw_tiles ?pw ?ph ?tw font_size text = Inl ValueError"
  proof (cases "py_int (?tw * 1.5) = 0")
    case True
    then show ?thesis by (simp add: draw_tiles_def tile_columns_def py_range_def)
  next
    case False
    with assms(4) have s: "0 < py_int (?tw * 1.5)" and a: "1 \<le> py_int (?pw * 2)"
      and z: "py_int (font_size * 5) = 0" by auto
    have "0 < range_len (- py_int (?pw * 2)) (py_int (?pw * 2)) (py_int (?tw * 1.5))"
      using s a by (simp add: range_len_def pos_imp_zdiv_nonneg_iff)
    then obtain n where n: "range_len (- py_int (?pw * 2)) (py_int (?pw * 2)) (py_int (?tw * 1.5)) = Suc n"
      by (metis Suc_pred)
    have r: "tile_rows ?ph font_size = Inl ValueError"
      using z by (simp add: tile_rows_def py_range_def)
    show ?thesis
      using s n r by (simp add: draw_tiles_def tile_columns_def py_range_def upt_conv_Cons del: upt_Suc)
  qed
  then have o: "overlay_ops e text opacity font_size rotation ?pw ?ph = Inl ValueError"
    by (simp add: overlay_ops_def)
  have t: "watermark_try e pdf_path text output_path opacity font_size rotation w
             = (Inl ValueError, Some (temp_name e), put (temp_name e) RawFile w)"
    using assms(3) o by (simp add: watermark_try_def Let_def)
  show ?thesis
    using assms(1,2) t by (simp add: add_watermark_def Let_def)
qed

theorem zero_stride_is_reported_witness:
  "pdf_libs_available example_env \<and> font_registered example_env
   \<and> read_pdf example_world example_pdf = Inr [example_page1, example_page2]
   \<and> 0 < py_int (stringWidth example_env ''COMPANY CONFIDENTIAL'' (1 / 10) * 1.5)
   \<and> 1 \<le> py_int (fst (upper_right example_page1) * 2)
   \<and> py_int (1 / 10 * 5) = 0
   \<and> fst (add_watermark example_env example_pdf ''COMPANY CONFIDENTIAL'' example_out 0.2 (1 / 10)
            30 example_world) = False
   \<and> logged (snd (add_watermark example_env example_pdf ''COMPANY CONFIDENTIAL'' example_out 0.2
                    (1 / 10) 30 example_world)) = [WatermarkError ValueError]
   \<and> \<not> exists (snd (add_watermark example_env example_pdf ''COMPANY CONFIDENTIAL'' example_out 0.2
                      (1 / 10) 30 example_world)) (temp_name example_env)"
proof -
  have a: "pdf_libs_available example_env" and b: "font_registered example_env"
    by (simp_all add: example_defs)
  have c: "read_pdf example_world example_pdf = Inr (example_page1 # [example_page2])"
    by (simp add: read_pdf_def example_defs)
  have d: "0 < py_int (stringWidth example_env ''COMPANY CONFIDENTIAL'' (1 / 10) * 1.5)"
    "1 \<le> py_int (fst (upper_right example_page1) * 2)" "py_int (1 / 10 * 5) = 0"
    by (simp_all add: py_int_def upper_right_def example_defs)
  then have d': "py_int (stringWidth example_env ''COMPANY CONFIDENTIAL'' (1 / 10) * 1.5) = 0
         \<or> (0 < py_int (stringWidth example_env ''COMPANY CONFIDENTIAL'' (1 / 10) * 1.5)
             \<and> 1 \<le> py_int (fst (upper_right example_page1) * 2)
             \<and> py_int (1 / 10 * 5) = 0)" by blast
  have l: "logged example_world = []" by (simp add: example_defs)
  from zero_stride_is_reported [OF a b c d', of example_out "0.2" 30] a b c d l
  show ?thesis by auto
qed

theorem zero_stride_counterexample:
  "pdf_libs_available example_env \<and> font_registered example_env
   \<and> read_pdf example_world example_plan = Inr [example_page3]
   \<and> (0::real) < 1 / 10
   \<and> py_int (1 / 10 * 5) = 0
   \<and> fst (add_watermark example_env example_plan ''COMPANY CONFIDENTIAL'' example_out 0.2 (1 / 10)
            30 example_world) = True"
  by (simp add: watermark_defs example_defs)


subsection \<open>Choice of the conversion method\<close>







lemmas converter_defs =
  convert_with_comtypes_def convert_with_libreoffice_def automate_def release_def
  lower_def lower_char_def name_def Let_def



subsection \<open>When a conversion method reports success\<close>

text \<open>
  C3, as amended. The LibreOffice method returns \<^verbatim>\<open>True\<close> exactly when the process
  exits with return code 0 and the expected output file exists afterwards. The native method
  does not look at the output file: when its release calls raise nothing, it returns
  \<^verbatim>\<open>True\<close> exactly when it runs on Windows, comtypes imports and none of
  \<^verbatim>\<open>CreateObject\<close>, \<^verbatim>\<open>Open\<close> and \<^verbatim>\<open>SaveAs\<close> raises.
\<close>

theorem backend_success_conditions:
  "(fst (convert_with_libreoffice e input_path output_dir w) = True
      \<longleftrightarrow> (\<exists>written. soffice e input_path output_dir = ProcExit 0 written)
          \<and> exists (snd (convert_with_libreoffice e input_path output_dir w))
               (Path output_dir (stem input_path) ''.pdf''))
   \<and> (\<not> close_raises (com e input_path) \<and> \<not> quit_raises (com e input_path)
      \<longrightarrow> (fst (convert_with_comtypes e input_path output_path w) = Inr True
            \<longleftrightarrow> system e = ''Windows'' \<and> comtypes_available e
                \<and> \<not> create_raises (com e input_path) \<and> \<not> open_raises (com e input_path)
                \<and> \<not> saveas_raises (com e input_path)))"
proof -
  have lo: "fst (convert_with_libreoffice e input_path output_dir w) = True
      \<longleftrightarrow> (\<exists>written. soffice e input_path output_dir = ProcExit 0 written)
          \<and> exists (snd (convert_with_libreoffice e input_path output_dir w))
               (Path output_dir (stem input_path) ''.pdf'')"
    by (auto simp: convert_with_libreoffice_def Let_def split: proc_outcome.splits)
  have ct: "fst (convert_with_comtypes e input_path output_path w) = Inr True
            \<longleftrightarrow> system e = ''Windows'' \<and> comtypes_available e
                \<and> \<not> create_raises (com e input_path) \<and> \<not> open_raises (com e input_path)
                \<and> \<not> saveas_raises (com e input_path)"
    if "\<not> close_raises (com e input_path)" "\<not> quit_raises (com e input_path)"
    using that
    by (auto simp: convert_with_comtypes_def automate_def release_def Let_def)
  from lo ct show ?thesis by blast
qed

theorem backend_success_conditions_witness:
  "fst (convert_with_libreoffice example_env example_docx ''/out'' example_world) = True
   \<and> soffice example_env example_docx ''/out'' = ProcExit 0 True
   \<and> exists (snd (convert_with_libreoffice example_env example_docx ''/out'' example_world))
        (Path ''/out'' (stem example_docx) ''.pdf'')
   \<and> fst (convert_with_libreoffice (example_env\<lparr>soffice := \<lambda>p d. ProcExit 0 False\<rparr>)
            example_docx ''/out'' example_world) = False
   \<and> \<not> close_raises (com example_env example_docx) \<and> \<not> quit_raises (com example_env example_docx)
   \<and> fst (convert_with_comtypes example_env example_docx (Path ''/out'' ''letter'' ''.pdf'')
            example_world) = Inr True
   \<and> fst (convert_with_comtypes (example_env\<lparr>com := \<lambda>p. example_com\<lparr>saveas_raises := True\<rparr>\<rparr>)
            example_docx (Path ''/out'' ''letter'' ''.pdf'') example_world) = Inr False"
proof -
  let ?e1 = "example_env\<lparr>soffice := \<lambda>p d. ProcExit 0 False\<rparr>"
  let ?e2 = "example_env\<lparr>com := \<lambda>p. example_com\<lparr>saveas_raises := True\<rparr>\<rparr>"
  have a: "soffice example_env example_docx ''/out'' = ProcExit 0 True"
    "soffice ?e1 example_docx ''/out'' = ProcExit 0 False"
    by (simp_all add: example_defs)
  have b: "\<not> exists (snd (convert_with_libreoffice ?e1 example_docx ''/out'' example_world))
        (Path ''/out'' (stem example_docx) ''.pdf'')"
    by (simp add: converter_defs example_defs exists_def)
  have x: "exists (snd (convert_with_libreoffice example_env example_docx ''/out'' example_world))
        (Path ''/out'' (stem example_docx) ''.pdf'')"
    by (simp add: converter_defs example_defs exists_def put_def logm_def ev_def)
  have c: "\<not> close_raises (com example_env example_docx)" "\<not> quit_raises (com example_env example_docx)"
    "\<not> close_raises (com ?e2 example_docx)" "\<not> quit_raises (com ?e2 example_docx)"
    "system example_env = ''Windows''" "comtypes_available example_env"
    "\<not> create_raises (com example_env example_docx)" "\<not> open_raises (com example_env example_docx)"
    "\<not> saveas_raises (com example_env example_docx)" "saveas_raises (com ?e2 example_docx)"
    by (simp_all add: example_defs)
  have d: "fst (convert_with_comtypes ?e2 example_docx (Path ''/out'' ''letter'' ''.pdf'')
            example_world) = Inr False"
    by (simp add: converter_defs example_defs)
  from backend_success_conditions [of example_env example_docx "''/out''" example_world
         "Path ''/out'' ''letter'' ''.pdf''"]
       backend_success_conditions [of ?e1 example_docx "''/out''" example_world
         "Path ''/out'' ''letter'' ''.pdf''"]
       backend_success_conditions [of ?e2 example_docx "''/out''" example_world
         "Path ''/out'' ''letter'' ''.pdf''"]
       a b c d x
  show ?thesis by auto
qed

theorem native_success_without_file_counterexample:
  "fst (convert_with_comtypes (example_env\<lparr>com := \<lambda>p. example_com\<lparr>saveas_writes := False\<rparr>\<rparr>)
          example_docx (Path ''/out'' ''letter'' ''.pdf'') example_world) = Inr True
   \<and> \<not> exists (snd (convert_with_comtypes
                      (example_env\<lparr>com := \<lambda>p. example_com\<lparr>saveas_writes := False\<rparr>\<rparr>)
                      example_docx (Path ''/out'' ''letter'' ''.pdf'') example_world))
          (Path ''/out'' ''letter'' ''.pdf'')"
  by (simp add: converter_defs example_defs exists_def)

subsection \<open>Release of the automation objects\<close>

text \<open>
  C7. The native method at a Word file for which \<^verbatim>\<open>doc.Close\<close> raises: the exception
  leaves the method, and \<^verbatim>\<open>word.Quit\<close> is not among the calls made.
\<close>

theorem close_raising_skips_quit:
  "fst (convert_with_comtypes (example_env\<lparr>com := \<lambda>p. example_com\<lparr>close_raises := True\<rparr>\<rparr>)
          example_docx (Path ''/out'' ''letter'' ''.pdf'') example_world) = Inl COMError
   \<and> trace (snd (convert_with_comtypes
                    (example_env\<lparr>com := \<lambda>p. example_com\<lparr>close_raises := True\<rparr>\<rparr>)
                    example_docx (Path ''/out'' ''letter'' ''.pdf'') example_world))
       = [Invoke Comtypes example_docx, ComCreate ''Word.Application'', ComOpen example_docx,
          ComSaveAs (Path ''/out'' ''letter'' ''.pdf'') 17, ComClose]
   \<and> ComQuit \<notin> set (trace (snd (convert_with_comtypes
                    (example_env\<lparr>com := \<lambda>p. example_com\<lparr>close_raises := True\<rparr>\<rparr>)
                    example_docx (Path ''/out'' ''letter'' ''.pdf'') example_world)))"
  by (simp add: converter_defs example_defs)


subsection \<open>The batch run\<close>

lemma quiet_simps [simp]:
  "quiet []" "quiet (m # ms) = (\<not> is_header m \<and> \<not> is_success m \<and> quiet ms)"
  "quiet (ms @ ms') = (quiet ms \<and> quiet ms')"
  by (auto simp: quiet_def)
















subsection \<open>Saved settings\<close>









subsection \<open>Further properties\<close>

text \<open>
  X1. On a source document without pages the watermark operation returns \<^verbatim>\<open>False\<close>; it
  logs that the document is empty and changes no file, so no output file is created.
\<close>

theorem empty_document_fails:
  assumes "pdf_libs_available e" and "font_registered e" and "read_pdf w pdf_path = Inr []"
  shows "add_watermark e pdf_path text output_path opacity font_size rotation w
           = (False, logm (EmptyPdf (name pdf_path)) w)"
  using assms by (simp add: add_watermark_def watermark_try_def)

theorem empty_document_fails_witness:
  "pdf_libs_available example_env \<and> font_registered example_env
   \<and> read_pdf (put example_pdf (PdfFile []) example_world) example_pdf = Inr []
   \<and> fst (add_watermark example_env example_pdf ''CONFIDENTIAL'' example_out 0.2 25 30
            (put example_pdf (PdfFile []) example_world)) = False
   \<and> \<not> exists (snd (add_watermark example_env example_pdf ''CONFIDENTIAL'' example_out 0.2 25 30
                      (put example_pdf (PdfFile []) example_world))) example_out"
proof -
  have a: "pdf_libs_available example_env" "font_registered example_env"
    by (simp_all add: example_defs)
  have b: "read_pdf (put example_pdf (PdfFile []) example_world) example_pdf = Inr []"
    by (simp add: read_pdf_def)
  have c: "\<not> exists example_world example_out" by (simp add: exists_def example_defs)
  from empty_document_fails [OF a b, of "''CONFIDENTIAL''" example_out "0.2" 25 30] a b c
  show ?thesis by (simp add: example_defs)
qed

text \<open>
  X2. The temporary overlay file is removed on every exit path of the watermark operation:
  when its name was free before the call, no file of that name exists after it, whatever the
  outcome.
\<close>

theorem temporary_file_removed:
  assumes "\<not> exists w (temp_name e)"
  shows "\<not> exists (snd (add_watermark e pdf_path text output_path opacity font_size rotation w))
             (temp_name e)"
  using assms
  by (auto simp: add_watermark_def watermark_try_def read_pdf_def Let_def
           split: sum.splits list.splits option.splits fcontent.splits if_splits prod.splits)

theorem temporary_file_removed_witness:
  "\<not> exists example_world (temp_name example_env)
   \<and> \<not> exists (snd (add_watermark example_env example_pdf ''CONFIDENTIAL'' example_out 0.2 25 30
                      example_world)) (temp_name example_env)
   \<and> \<not> exists (snd (add_watermark example_env example_docx ''CONFIDENTIAL'' example_out 0.2 25 30
                      example_world)) (temp_name example_env)"
proof -
  have a: "\<not> exists example_world (temp_name example_env)"
    by (simp add: exists_def example_defs)
  from temporary_file_removed [OF a] a show ?thesis by blast
qed

text \<open>
  X3. On Windows with comtypes, when the application has been started and closing the
  document does not raise, the native method calls \<^verbatim>\<open>Quit\<close> on every exit path, and it
  calls \<^verbatim>\<open>Close\<close> whenever the document has been opened.
\<close>

theorem application_released:
  assumes "system e = ''Windows''" and "comtypes_available e"
    and "\<not> create_raises (com e input_path)"
    and "open_raises (com e input_path) \<or> \<not> close_raises (com e input_path)"
  shows "\<exists>calls. trace (snd (convert_with_comtypes e input_path output_path w)) = trace w @ calls
           \<and> ComQuit \<in> set calls
           \<and> (open_raises (com e input_path) \<or> ComClose \<in> set calls)"
  using assms
  by (cases "lower (suffix input_path) \<in> set [''.doc'', ''.docx'']")
     (auto simp: convert_with_comtypes_def automate_def release_def Let_def)

theorem application_released_witness:
  "system example_env = ''Windows'' \<and> comtypes_available example_env
   \<and> \<not> create_raises (com (example_env\<lparr>com := \<lambda>p. example_com\<lparr>saveas_raises := True\<rparr>\<rparr>) example_docx)
   \<and> \<not> close_raises (com (example_env\<lparr>com := \<lambda>p. example_com\<lparr>saveas_raises := True\<rparr>\<rparr>) example_docx)
   \<and> trace (snd (convert_with_comtypes
                    (example_env\<lparr>com := \<lambda>p. example_com\<lparr>saveas_raises := True\<rparr>\<rparr>)
                    example_docx (Path ''/out'' ''letter'' ''.pdf'') example_world))
       = [Invoke Comtypes example_docx, ComCreate ''Word.Application'', ComOpen example_docx,
          ComSaveAs (Path ''/out'' ''letter'' ''.pdf'') 17, ComClose, ComQuit]"
proof -
  let ?e = "example_env\<lparr>com := \<lambda>p. example_com\<lparr>saveas_raises := True\<rparr>\<rparr>"
  have a: "system ?e = ''Windows''" "comtypes_available ?e"
    "\<not> create_raises (com ?e example_docx)"
    "open_raises (com ?e example_docx) \<or> \<not> close_raises (com ?e example_docx)"
    "system example_env = ''Windows''" "comtypes_available example_env"
    "\<not> close_raises (com ?e example_docx)"
    by (simp_all add: example_defs)
  have t: "trace (snd (convert_with_comtypes ?e example_docx (Path ''/out'' ''letter'' ''.pdf'')
                   example_world))
       = [Invoke Comtypes example_docx, ComCreate ''Word.Application'', ComOpen example_docx,
          ComSaveAs (Path ''/out'' ''letter'' ''.pdf'') 17, ComClose, ComQuit]"
    by (simp add: converter_defs example_defs)
  from application_released [OF a(1-4), of "Path ''/out'' ''letter'' ''.pdf''" example_world] a t
  show ?thesis by simp
qed

end
